theory Spec2Isabelle
  imports Complex_Main "HOL-Library.Word"
begin

section \<open>Data model of the license client (pkg/client)\<close>

text \<open>
  Go's \<open>int\<close> and \<open>int64\<close> are 64-bit two's-complement words: \<open>+\<close> and \<open>-\<close> wrap,
  comparisons read the word with \<open>sint\<close>.  A \<open>time.Time\<close> instant is its number of
  nanoseconds, a \<open>time.Duration\<close> a number of nanoseconds; \<open>t.Add(d)\<close> is \<open>t + d\<close> and
  \<open>t.After(u)\<close> is \<open>u < t\<close>.  A finite \<open>float64\<close> is the real number it denotes.
\<close>

type_synonym go_int = "64 word"
type_synonym time = int
type_synonym duration = int

definition Second :: duration where
  "Second = 1000000000"

subsection \<open>tps_tracker.go\<close>

record tpsTracker =
  requests :: "time list"
  window :: duration

definition newTPSTracker :: tpsTracker where
  "newTPSTracker = \<lparr>requests = [], window = Second\<rparr>"

text \<open>
  The pruning loop of \<open>RecordRequest\<close>: \<open>validIdx\<close> starts at 0 and becomes the index of
  the first request after the cutoff, where the loop breaks; when no request is after
  the cutoff the loop runs out and \<open>validIdx\<close> is still 0.
\<close>

primrec find_validIdx :: "time \<Rightarrow> nat \<Rightarrow> time list \<Rightarrow> nat" where
  "find_validIdx cutoff i [] = 0"
| "find_validIdx cutoff i (req # rest) =
     (if cutoff < req then i else find_validIdx cutoff (Suc i) rest)"

definition RecordRequest :: "time \<Rightarrow> tpsTracker \<Rightarrow> tpsTracker" where
  "RecordRequest now t =
     (let reqs = requests t @ [now];
          cutoff = now - window t;
          validIdx = find_validIdx cutoff 0 reqs
      in t\<lparr>requests := (if 0 < validIdx then drop validIdx reqs else reqs)\<rparr>)"

text \<open>The counting loop of \<open>getCurrentRate\<close>, and the conversion \<open>float64(count)\<close>.\<close>

definition count_after :: "time \<Rightarrow> time list \<Rightarrow> nat" where
  "count_after cutoff reqs = fold (\<lambda>req count. if cutoff < req then count + 1 else count) reqs 0"

definition getCurrentRate :: "time \<Rightarrow> tpsTracker \<Rightarrow> real" where
  "getCurrentRate now t = real (count_after (now - window t) (requests t))"

definition Reset :: "tpsTracker \<Rightarrow> tpsTracker" where
  "Reset t = t\<lparr>requests := []\<rparr>"


subsection \<open>client.go: snapshots and the feature cache\<close>

record QuotaInfo =
  Limit :: go_int
  Used :: go_int
  Remaining :: go_int
  ResetAt :: go_int

record FeatureStatus =
  Enabled :: bool
  Reason :: string
  Quota :: "QuotaInfo option"
  MaxCapacity :: go_int
  MaxTPS :: real
  MaxConcurrency :: go_int

record cacheEntry =
  status :: FeatureStatus
  expiresAt :: time

record featureCache =
  data :: "string \<rightharpoonup> cacheEntry"
  ttl :: duration

text \<open>\<open>featureCache.get\<close> and \<open>featureCache.set\<close>, with the reading of \<open>time.Now()\<close> as
  an argument; \<open>None\<close> is the \<open>nil\<close> that \<open>get\<close> returns.\<close>

definition get :: "time \<Rightarrow> string \<Rightarrow> featureCache \<Rightarrow> FeatureStatus option" where
  "get now featureID fc =
     (case data fc featureID of
        None \<Rightarrow> None
      | Some entry \<Rightarrow> if expiresAt entry < now then None else Some (status entry))"

definition set_entry :: "time \<Rightarrow> string \<Rightarrow> FeatureStatus \<Rightarrow> featureCache \<Rightarrow> featureCache" where
  "set_entry now featureID st fc =
     fc\<lparr>data := (data fc)(featureID \<mapsto> \<lparr>status = st, expiresAt = now + ttl fc\<rparr>)\<rparr>"

definition clear :: "featureCache \<Rightarrow> featureCache" where
  "clear fc = fc\<lparr>data := Map.empty\<rparr>"

subsection \<open>client.go: errors, the client and its collaborators\<close>

text \<open>
  A Go \<open>error\<close> value, by the \<open>fmt.Errorf\<close> call that builds it.  \<open>RequestError\<close> stands
  for every error of the request path (building, signing and sending the request, a
  status other than 200, decoding the body); the other constructors carry the arguments
  of their format string:
  \<open>"quota exceeded: %s"\<close>, \<open>"no capacity limit configured"\<close>,
  \<open>"capacity exceeded: %d >= %d"\<close>, \<open>"TPS exceeded: %.2f > %.2f"\<close>,
  \<open>"no concurrency limit configured"\<close>, \<open>"concurrency exceeded: %d >= %d"\<close>.
  A returned \<open>error\<close> is an \<open>error option\<close>, \<open>None\<close> being \<open>nil\<close>.
\<close>

datatype error =
    RequestError string
  | QuotaExceeded string
  | NoCapacityLimit
  | CapacityExceeded go_int go_int
  | TPSExceeded real real
  | NoConcurrencyLimit
  | ConcurrencyExceeded go_int go_int

text \<open>The \<open>result\<close> struct that \<open>queryFeature\<close> decodes the authority's reply into.\<close>

record checkResult =
  result_FeatureID :: string
  result_Enabled :: bool
  result_Reason :: string
  result_QuotaInfo :: "QuotaInfo option"
  result_MaxCapacity :: go_int
  result_MaxTPS :: real
  result_MaxConcurrency :: go_int
  result_CacheTTL :: go_int

text \<open>The request body of \<open>ReportUsage\<close>, before \<open>float64\<close> \<open>amount\<close> is cut to \<open>int\<close>.\<close>

record usageBody =
  body_instance_id :: string
  body_feature_id :: string
  body_amount :: real
  body_timestamp :: int

text \<open>
  The \<open>TPSProvider\<close> slot of \<open>HelperFunctions\<close>: a callback of the application, given by
  the rate it returns, or the closure over \<open>getInternalTPS\<close> that \<open>SetDefaults\<close> installs.
\<close>

datatype tpsProvider = AppTPS real | InternalTPS

record HelperFunctions =
  TPSProvider :: "tpsProvider option"

record Client =
  instanceID :: string
  cache :: featureCache
  helpers :: "HelperFunctions option"
  tracker :: "tpsTracker option"

text \<open>
  What a call runs against: the client, the package-level map \<open>concurrencyState\<close>, the
  feature queries and usage reports sent so far, and the number of \<open>time.Now()\<close>
  readings taken so far.
\<close>

record world =
  client :: Client
  concurrencyState :: "string \<rightharpoonup> go_int"
  queries :: "string list"
  reports :: "usageBody list"
  ticks :: nat

text \<open>
  The collaborators of the client, as functions of how often they have been asked:
  the clock, the authority's reply to a feature query, its reply to a usage report,
  and the conversion \<open>float64(amount)\<close> of the Go runtime.
\<close>

record env =
  clock :: "nat \<Rightarrow> time"
  authority :: "nat \<Rightarrow> string \<Rightarrow> error + checkResult"
  usageEndpoint :: "nat \<Rightarrow> usageBody \<Rightarrow> error option"
  float64 :: "go_int \<Rightarrow> real"

definition time_Now :: "env \<Rightarrow> world \<Rightarrow> time" where
  "time_Now e w = clock e (ticks w)"

definition tick :: "world \<Rightarrow> world" where
  "tick w = w\<lparr>ticks := Suc (ticks w)\<rparr>"

definition with_cache :: "featureCache \<Rightarrow> world \<Rightarrow> world" where
  "with_cache fc w = w\<lparr>client := (client w)\<lparr>cache := fc\<rparr>\<rparr>"

definition with_tracker :: "tpsTracker \<Rightarrow> world \<Rightarrow> world" where
  "with_tracker t w = w\<lparr>client := (client w)\<lparr>tracker := Some t\<rparr>\<rparr>"

text \<open>\<open>c.cache.get\<close>: the clock is read only when the key has an entry.\<close>

definition cache_get :: "env \<Rightarrow> string \<Rightarrow> world \<Rightarrow> FeatureStatus option \<times> world" where
  "cache_get e featureID w =
     (case data (cache (client w)) featureID of
        None \<Rightarrow> (None, w)
      | Some entry \<Rightarrow> (get (time_Now e w) featureID (cache (client w)), tick w))"

definition cache_set :: "env \<Rightarrow> string \<Rightarrow> FeatureStatus \<Rightarrow> world \<Rightarrow> world" where
  "cache_set e featureID st w =
     with_cache (set_entry (time_Now e w) featureID st (cache (client w))) (tick w)"

text \<open>The \<open>FeatureStatus\<close> literal that \<open>queryFeature\<close> returns; \<open>result.CacheTTL\<close> is
  not copied.\<close>

definition to_FeatureStatus :: "checkResult \<Rightarrow> FeatureStatus" where
  "to_FeatureStatus result =
     \<lparr>Enabled = result_Enabled result,
      Reason = result_Reason result,
      Quota = result_QuotaInfo result,
      MaxCapacity = result_MaxCapacity result,
      MaxTPS = result_MaxTPS result,
      MaxConcurrency = result_MaxConcurrency result\<rparr>"

definition queryFeature :: "env \<Rightarrow> string \<Rightarrow> world \<Rightarrow> (error + FeatureStatus) \<times> world" where
  "queryFeature e featureID w =
     (let w' = w\<lparr>queries := queries w @ [featureID]\<rparr> in
      case authority e (length (queries w)) featureID of
        Inl err \<Rightarrow> (Inl err, w')
      | Inr result \<Rightarrow> (Inr (to_FeatureStatus result), w'))"

definition CheckFeature :: "env \<Rightarrow> string \<Rightarrow> world \<Rightarrow> (error + FeatureStatus) \<times> world" where
  "CheckFeature e featureID w =
     (case cache_get e featureID w of
        (Some st, w1) \<Rightarrow> (Inr st, w1)
      | (None, w1) \<Rightarrow>
          (case queryFeature e featureID w1 of
             (Inl err, w2) \<Rightarrow> (Inl err, w2)
           | (Inr st, w2) \<Rightarrow> (Inr st, cache_set e featureID st w2)))"

definition checkProductLimits :: "env \<Rightarrow> world \<Rightarrow> (error + FeatureStatus) \<times> world" where
  "checkProductLimits e w = CheckFeature e ''__product__'' w"

definition ReportUsage :: "env \<Rightarrow> string \<Rightarrow> real \<Rightarrow> world \<Rightarrow> error option \<times> world" where
  "ReportUsage e featureID amount w =
     (let reqBody = \<lparr>body_instance_id = instanceID (client w),
                      body_feature_id = featureID,
                      body_amount = amount,
                      body_timestamp = time_Now e w div Second\<rparr>;
          w' = tick w
      in (usageEndpoint e (length (reports w')) reqBody, w'\<lparr>reports := reports w' @ [reqBody]\<rparr>))"

definition reportProductUsage :: "env \<Rightarrow> go_int \<Rightarrow> world \<Rightarrow> error option \<times> world" where
  "reportProductUsage e amount w = ReportUsage e ''__product__'' (float64 e amount) w"

definition getInternalTPS :: "env \<Rightarrow> world \<Rightarrow> real \<times> world" where
  "getInternalTPS e w =
     (case tracker (client w) of
        None \<Rightarrow> (0, w)
      | Some t \<Rightarrow> (getCurrentRate (time_Now e w) t, tick w))"

definition getCurrentTPS :: "env \<Rightarrow> world \<Rightarrow> real \<times> world" where
  "getCurrentTPS e w =
     (case helpers (client w) of
        None \<Rightarrow> getInternalTPS e w
      | Some h \<Rightarrow>
          (case TPSProvider h of
             None \<Rightarrow> getInternalTPS e w
           | Some (AppTPS r) \<Rightarrow> (r, w)
           | Some InternalTPS \<Rightarrow> getInternalTPS e w))"

subsection \<open>client.go: the four admission primitives\<close>

text \<open>The tuple a primitive returns; the last component is the Go \<open>error\<close>.\<close>

text \<open>The first statement of \<open>Consume\<close>: record the call when the client has a tracker.\<close>

definition recordTPS :: "env \<Rightarrow> world \<Rightarrow> world" where
  "recordTPS e w =
     (case tracker (client w) of
        None \<Rightarrow> w
      | Some t \<Rightarrow> with_tracker (RecordRequest (time_Now e w) t) (tick w))"

definition Consume :: "env \<Rightarrow> go_int \<Rightarrow> world \<Rightarrow> (bool \<times> go_int \<times> error option) \<times> world" where
  "Consume e amount w =
     (case checkProductLimits e (recordTPS e w) of
        (Inl err, w1) \<Rightarrow> ((False, 0, Some err), w1)
      | (Inr st, w1) \<Rightarrow>
          if \<not> Enabled st then
            ((False, (case Quota st of None \<Rightarrow> 0 | Some q \<Rightarrow> Remaining q),
              Some (QuotaExceeded (Reason st))), w1)
          else
            (case reportProductUsage e amount w1 of
               (Some err, w2) \<Rightarrow> ((False, 0, Some err), w2)
             | (None, w2) \<Rightarrow>
                 ((True,
                   (case Quota st of
                      None \<Rightarrow> 0
                    | Some q \<Rightarrow>
                        (let remaining = Remaining q - amount
                         in if sint remaining < 0 then 0 else remaining)),
                   None), w2)))"

definition CheckCapacity :: "env \<Rightarrow> go_int \<Rightarrow> world \<Rightarrow> (bool \<times> go_int \<times> error option) \<times> world" where
  "CheckCapacity e currentUsed w =
     (case checkProductLimits e w of
        (Inl err, w1) \<Rightarrow> ((False, 0, Some err), w1)
      | (Inr st, w1) \<Rightarrow>
          (let maxCapacity = MaxCapacity st in
           if sint maxCapacity \<le> 0 then ((False, 0, Some NoCapacityLimit), w1)
           else if sint maxCapacity \<le> sint currentUsed then
             ((False, maxCapacity, Some (CapacityExceeded currentUsed maxCapacity)), w1)
           else ((True, maxCapacity, None), w1)))"

definition CheckTPS :: "env \<Rightarrow> world \<Rightarrow> (bool \<times> real \<times> error option) \<times> world" where
  "CheckTPS e w =
     (case getCurrentTPS e w of
        (currentTPS, w0) \<Rightarrow>
          (case checkProductLimits e w0 of
             (Inl err, w1) \<Rightarrow> ((False, 0, Some err), w1)
           | (Inr st, w1) \<Rightarrow>
               (let maxTPS = MaxTPS st in
                if maxTPS \<le> 0 then ((True, 0, None), w1)
                else if maxTPS < currentTPS then
                  ((False, maxTPS, Some (TPSExceeded currentTPS maxTPS)), w1)
                else ((True, maxTPS, None), w1))))"

text \<open>
  A value of type \<open>ReleaseFunc\<close>: \<open>nil\<close>, the literal \<open>func() {}\<close>, or the closure of
  \<open>AcquireSlot\<close> over its \<open>key\<close>.  Calling a nil function panics (\<open>None\<close>).
\<close>

datatype ReleaseFunc = NilFunc | EmptyFunc | ReleaseKey string

definition slot_count :: "world \<Rightarrow> string \<Rightarrow> go_int" where
  "slot_count w key = (case concurrencyState w key of None \<Rightarrow> 0 | Some n \<Rightarrow> n)"

definition product_key :: "world \<Rightarrow> string" where
  "product_key w = instanceID (client w) @ ''::__product__''"

definition AcquireSlot :: "env \<Rightarrow> world \<Rightarrow> (ReleaseFunc \<times> bool \<times> error option) \<times> world" where
  "AcquireSlot e w =
     (case checkProductLimits e w of
        (Inl err, w1) \<Rightarrow> ((EmptyFunc, False, Some err), w1)
      | (Inr st, w1) \<Rightarrow>
          (let maxConcurrency = MaxConcurrency st in
           if sint maxConcurrency \<le> 0 then ((EmptyFunc, False, Some NoConcurrencyLimit), w1)
           else
             (let key = product_key w1;
                  current = slot_count w1 key
              in if sint maxConcurrency \<le> sint current then
                   ((EmptyFunc, False, Some (ConcurrencyExceeded current maxConcurrency)), w1)
                 else
                   ((ReleaseKey key, True, None),
                    w1\<lparr>concurrencyState := (concurrencyState w1)(key \<mapsto> current + 1)\<rparr>))))"

definition invoke :: "ReleaseFunc \<Rightarrow> world \<Rightarrow> world option" where
  "invoke release w =
     (case release of
        NilFunc \<Rightarrow> None
      | EmptyFunc \<Rightarrow> Some w
      | ReleaseKey key \<Rightarrow>
          (let cur = slot_count w key in
           if sint cur \<le> 1 then Some (w\<lparr>concurrencyState := (concurrencyState w)(key := None)\<rparr>)
           else Some (w\<lparr>concurrencyState := (concurrencyState w)(key \<mapsto> cur - 1)\<rparr>)))"

text \<open>Invoking the same release value \<open>n\<close> times in a row.\<close>

primrec invoke_times :: "nat \<Rightarrow> ReleaseFunc \<Rightarrow> world \<Rightarrow> world option" where
  "invoke_times 0 release w = Some w"
| "invoke_times (Suc n) release w =
     (case invoke release w of None \<Rightarrow> None | Some w' \<Rightarrow> invoke_times n release w')"

text \<open>The ledger count of \<open>key\<close> after \<open>n\<close> invocations, read as a signed number.\<close>

definition released_count :: "nat \<Rightarrow> ReleaseFunc \<Rightarrow> string \<Rightarrow> world \<Rightarrow> int option" where
  "released_count n release key w =
     (case invoke_times n release w of
        None \<Rightarrow> None
      | Some w' \<Rightarrow> Some (sint (slot_count w' key)))"

subsection \<open>Concurrent callers of \<open>CheckFeature\<close>\<close>

text \<open>
  \<open>CheckFeature\<close> holds no lock of its own: \<open>cache.get\<close> runs under the cache's read lock,
  \<open>queryFeature\<close> under none, \<open>cache.set\<close> under the write lock.  A caller is therefore at
  one of four places: before \<open>get\<close>, before the query (after a miss), before \<open>set\<close> (with
  the status the query returned), or returned.  A schedule lists which caller moves
  next; each move is one of the three calls, run atomically.
\<close>

datatype caller = AtGet | AtQuery | AtSet FeatureStatus | Returned "error + FeatureStatus"

record system =
  shared :: world
  callers :: "caller list"

definition step :: "env \<Rightarrow> string \<Rightarrow> nat \<Rightarrow> system \<Rightarrow> system" where
  "step e featureID i s =
     (if length (callers s) \<le> i then s
      else case callers s ! i of
        AtGet \<Rightarrow>
          (case cache_get e featureID (shared s) of
             (Some st, w') \<Rightarrow> \<lparr>shared = w', callers = (callers s)[i := Returned (Inr st)]\<rparr>
           | (None, w') \<Rightarrow> \<lparr>shared = w', callers = (callers s)[i := AtQuery]\<rparr>)
      | AtQuery \<Rightarrow>
          (case queryFeature e featureID (shared s) of
             (Inl err, w') \<Rightarrow> \<lparr>shared = w', callers = (callers s)[i := Returned (Inl err)]\<rparr>
           | (Inr st, w') \<Rightarrow> \<lparr>shared = w', callers = (callers s)[i := AtSet st]\<rparr>)
      | AtSet st \<Rightarrow>
          \<lparr>shared = cache_set e featureID st (shared s),
           callers = (callers s)[i := Returned (Inr st)]\<rparr>
      | Returned r \<Rightarrow> s)"

primrec run :: "env \<Rightarrow> string \<Rightarrow> nat list \<Rightarrow> system \<Rightarrow> system" where
  "run e featureID [] s = s"
| "run e featureID (i # sched) s = run e featureID sched (step e featureID i s)"

text \<open>\<open>n\<close> callers about to call \<open>CheckFeature\<close>.\<close>

definition start :: "nat \<Rightarrow> world \<Rightarrow> system" where
  "start n w = \<lparr>shared = w, callers = replicate n AtGet\<rparr>"



subsection \<open>Construction, and the values the examples run on\<close>

text \<open>\<open>NewClientWithKeyPair\<close>, from \<open>cfg.CacheTTL\<close> and the key pair's fingerprint.\<close>

definition NewClientWithKeyPair :: "duration \<Rightarrow> string \<Rightarrow> Client" where
  "NewClientWithKeyPair cacheTTL fingerprint =
     \<lparr>instanceID = fingerprint,
      cache = \<lparr>data = Map.empty, ttl = cacheTTL\<rparr>,
      helpers = None,
      tracker = Some newTPSTracker\<rparr>"

text \<open>A new client with a cache lifetime of ten seconds, before any call.\<close>

definition world0 :: world where
  "world0 = \<lparr>client = NewClientWithKeyPair (10 * Second) ''fp'',
             concurrencyState = Map.empty, queries = [], reports = [], ticks = 0\<rparr>"

text \<open>
  Replies of the authority: a denial for an exhausted quota, and an admission with a
  quota block and all three limits; both suggest a cache lifetime of 30.
\<close>

definition result_denied :: checkResult where
  "result_denied =
     \<lparr>result_FeatureID = ''__product__'', result_Enabled = False,
      result_Reason = ''quota_exceeded'', result_QuotaInfo = None,
      result_MaxCapacity = 0, result_MaxTPS = 0, result_MaxConcurrency = 0,
      result_CacheTTL = 30\<rparr>"

definition result_limits :: checkResult where
  "result_limits =
     \<lparr>result_FeatureID = ''__product__'', result_Enabled = True,
      result_Reason = ''ok'',
      result_QuotaInfo = Some \<lparr>Limit = 1000, Used = 990, Remaining = 10, ResetAt = 0\<rparr>,
      result_MaxCapacity = 5, result_MaxTPS = 2, result_MaxConcurrency = 2,
      result_CacheTTL = 30\<rparr>"

text \<open>
  Collaborators for the examples: the \<open>n\<close>-th clock reading is \<open>n\<close> seconds, every usage
  report is acknowledged, small amounts convert to \<open>float64\<close> exactly, and the authority
  gives the same reply to every query (\<open>env_denied\<close>, \<open>env_limits\<close>) or a capacity that
  differs from one query to the next (\<open>env_changing\<close>).
\<close>

definition env_denied :: env where
  "env_denied =
     \<lparr>clock = (\<lambda>n. int n * Second), authority = (\<lambda>n k. Inr result_denied),
      usageEndpoint = (\<lambda>n b. None), float64 = (\<lambda>a. real_of_int (sint a))\<rparr>"

definition env_limits :: env where
  "env_limits =
     \<lparr>clock = (\<lambda>n. int n * Second), authority = (\<lambda>n k. Inr result_limits),
      usageEndpoint = (\<lambda>n b. None), float64 = (\<lambda>a. real_of_int (sint a))\<rparr>"


definition env_unreachable :: env where
  "env_unreachable =
     \<lparr>clock = (\<lambda>n. int n * Second),
      authority = (\<lambda>n k. Inl (RequestError ''request failed'')),
      usageEndpoint = (\<lambda>n b. None), float64 = (\<lambda>a. real_of_int (sint a))\<rparr>"

text \<open>The new client after the application registered a rate callback that returns \<open>r\<close>.\<close>

definition world_app_tps :: "real \<Rightarrow> world" where
  "world_app_tps r =
     world0\<lparr>client := (client world0)\<lparr>helpers := Some \<lparr>TPSProvider = Some (AppTPS r)\<rparr>\<rparr>\<rparr>"

text \<open>The new client after one, and after two, admitted \<open>AcquireSlot\<close> calls whose slots
  are still held.\<close>

definition world_one_held :: world where
  "world_one_held = snd (AcquireSlot env_limits world0)"

definition world_two_held :: world where
  "world_two_held = snd (AcquireSlot env_limits world_one_held)"

definition snapshot0 :: FeatureStatus where
  "snapshot0 = \<lparr>Enabled = True, Reason = ''ok'', Quota = None,
                MaxCapacity = 0, MaxTPS = 0, MaxConcurrency = 0\<rparr>"

section \<open>The sliding-window rate estimator\<close>













section \<open>The feature cache\<close>

text \<open>
  Claim C8, as the code has it.  After \<open>set\<close> stores \<open>snap\<close> under key \<open>k\<close> at time \<open>t\<close>,
  \<open>get\<close> for \<open>k\<close> at time \<open>t'\<close> returns \<open>snap\<close> as long as \<open>t'\<close> is not after \<open>t + ttl\<close>, the
  instant \<open>t + ttl\<close> included, and returns nothing once \<open>t'\<close> is after \<open>t + ttl\<close>; the
  lifetime is the cache's configured \<open>ttl\<close>.
\<close>

theorem cache_fresh_until_after_expiry:
  "get t' k (set_entry t k snap fc) = (if t + ttl fc < t' then None else Some snap)"
  by (simp add: get_def set_entry_def)

theorem cache_fresh_until_after_expiry_witness:
  "get 7 ''k'' (set_entry 5 ''k'' snapshot0 (cache (client world0))) = Some snapshot0
   \<and> get (6 + 10 * Second) ''k'' (set_entry 5 ''k'' snapshot0 (cache (client world0))) = None"
  using cache_fresh_until_after_expiry [of 7 "''k''" 5 snapshot0 "cache (client world0)"]
    cache_fresh_until_after_expiry [of "6 + 10 * Second" "''k''" 5 snapshot0
      "cache (client world0)"]
  by (simp add: world0_def NewClientWithKeyPair_def Second_def)

text \<open>
  The claim as the specification states it fails at the boundary: an entry stored at
  time 5 with a lifetime of ten seconds is still returned exactly ten seconds later.
\<close>

theorem cache_boundary_counterexample:
  "get (5 + 10 * Second) ''k'' (set_entry 5 ''k'' snapshot0 (cache (client world0)))
     = Some snapshot0"
  by (simp add: get_def set_entry_def world0_def NewClientWithKeyPair_def)

section \<open>What a snapshot fetch leaves alone\<close>

lemma CheckFeature_frame:
  "reports (snd (CheckFeature e k w)) = reports w
   \<and> concurrencyState (snd (CheckFeature e k w)) = concurrencyState w
   \<and> instanceID (client (snd (CheckFeature e k w))) = instanceID (client w)"
  by (simp add: CheckFeature_def cache_get_def queryFeature_def cache_set_def with_cache_def
      tick_def Let_def split: option.splits sum.splits prod.splits)

lemma checkProductLimits_frame:
  assumes "checkProductLimits e w = (r, w1)"
  shows "reports w1 = reports w" "concurrencyState w1 = concurrencyState w"
    "instanceID (client w1) = instanceID (client w)"
  using CheckFeature_frame [of e "''__product__''" w] assms
  by (simp_all add: checkProductLimits_def)






subsection \<open>Signed arithmetic that stays in range\<close>

lemma sint_sub_no_overflow:
  fixes a b :: go_int
  assumes "- (2 ^ 63) \<le> sint a - sint b" "sint a - sint b < 2 ^ 63"
  shows "sint (a - b) = sint a - sint b"
  using assms by (simp add: sint_word_ariths signed_take_bit_int_eq_self)

lemma sint_add_no_overflow:
  fixes a b :: go_int
  assumes "- (2 ^ 63) \<le> sint a + sint b" "sint a + sint b < 2 ^ 63"
  shows "sint (a + b) = sint a + sint b"
  using assms by (simp add: sint_word_ariths signed_take_bit_int_eq_self)

lemma sint_range64: "- (2 ^ 63) \<le> sint (a :: go_int) \<and> sint a < 2 ^ 63"
  using sint_ge [of a] sint_lt [of a] by simp

subsection \<open>The example runs\<close>

lemmas fetch_defs =
  checkProductLimits_def CheckFeature_def cache_get_def queryFeature_def cache_set_def
  with_cache_def set_entry_def get_def tick_def time_Now_def

lemmas example_defs =
  world0_def NewClientWithKeyPair_def newTPSTracker_def Second_def
  env_limits_def env_denied_def env_unreachable_def result_limits_def result_denied_def

lemma world0_limits:
  "checkProductLimits env_limits world0
     = (Inr (to_FeatureStatus result_limits), snd (checkProductLimits env_limits world0))"
  by (simp add: fetch_defs example_defs)

lemma world0_denied:
  "checkProductLimits env_denied world0
     = (Inr (to_FeatureStatus result_denied), snd (checkProductLimits env_denied world0))"
  by (simp add: fetch_defs example_defs)

lemma world0_recorded_denied:
  "checkProductLimits env_denied (recordTPS env_denied world0)
     = (Inr (to_FeatureStatus result_denied),
        snd (checkProductLimits env_denied (recordTPS env_denied world0)))"
  by (simp add: fetch_defs example_defs recordTPS_def with_tracker_def)


lemma app_tps_current: "getCurrentTPS e (world_app_tps r) = (r, world_app_tps r)"
  by (simp add: getCurrentTPS_def world_app_tps_def)

lemma app_tps_limits:
  "checkProductLimits env_limits (world_app_tps r)
     = (Inr (to_FeatureStatus result_limits),
        snd (checkProductLimits env_limits (world_app_tps r)))"
  by (simp add: fetch_defs example_defs world_app_tps_def)


lemma limits_fields:
  "MaxCapacity (to_FeatureStatus result_limits) = 5"
  "MaxTPS (to_FeatureStatus result_limits) = 2"
  "MaxConcurrency (to_FeatureStatus result_limits) = 2"
  "Enabled (to_FeatureStatus result_limits)"
  "Quota (to_FeatureStatus result_limits)
     = Some \<lparr>Limit = 1000, Used = 990, Remaining = 10, ResetAt = 0\<rparr>"
  by (simp_all add: to_FeatureStatus_def result_limits_def)

lemma denied_fields:
  "MaxCapacity (to_FeatureStatus result_denied) = 0"
  "MaxTPS (to_FeatureStatus result_denied) = 0"
  "MaxConcurrency (to_FeatureStatus result_denied) = 0"
  "\<not> Enabled (to_FeatureStatus result_denied)"
  "Quota (to_FeatureStatus result_denied) = None"
  "Reason (to_FeatureStatus result_denied) = ''quota_exceeded''"
  by (simp_all add: to_FeatureStatus_def result_denied_def)

text \<open>The worlds with one and two slots held, written out.\<close>

lemma world_one_held_eq:
  "world_one_held =
     \<lparr>client = \<lparr>instanceID = ''fp'',
                 cache = \<lparr>data = [''__product__'' \<mapsto>
                                    \<lparr>status = to_FeatureStatus result_limits,
                                     expiresAt = 10000000000\<rparr>],
                          ttl = 10000000000\<rparr>,
                 helpers = None,
                 tracker = Some newTPSTracker\<rparr>,
      concurrencyState = [''fp::__product__'' \<mapsto> 1],
      queries = [''__product__''], reports = [], ticks = 1\<rparr>"
  by (simp add: world_one_held_def AcquireSlot_def slot_count_def product_key_def Let_def
      fetch_defs world0_def NewClientWithKeyPair_def Second_def env_limits_def limits_fields)

lemma acquire_second:
  "AcquireSlot env_limits world_one_held =
     ((ReleaseKey ''fp::__product__'', True, None),
      \<lparr>client = \<lparr>instanceID = ''fp'',
                 cache = \<lparr>data = [''__product__'' \<mapsto>
                                    \<lparr>status = to_FeatureStatus result_limits,
                                     expiresAt = 10000000000\<rparr>],
                          ttl = 10000000000\<rparr>,
                 helpers = None,
                 tracker = Some newTPSTracker\<rparr>,
      concurrencyState = [''fp::__product__'' \<mapsto> 2],
      queries = [''__product__''], reports = [], ticks = 2\<rparr>)"
  by (simp add: world_one_held_eq AcquireSlot_def slot_count_def product_key_def Let_def
      fetch_defs Second_def env_limits_def limits_fields)

lemma world_two_held_limits:
  "checkProductLimits env_limits world_two_held
     = (Inr (to_FeatureStatus result_limits),
        snd (checkProductLimits env_limits world_two_held))"
  unfolding world_two_held_def acquire_second
  by (simp add: fetch_defs Second_def env_limits_def)

lemma world_two_held_count:
  "slot_count world_two_held (product_key world_two_held) = 2"
  by (simp add: world_two_held_def acquire_second slot_count_def product_key_def)

section \<open>Capacity and rate checks\<close>

text \<open>
  Claim C4.  Let \<open>st\<close> be the snapshot \<open>CheckCapacity\<close> fetches.  When \<open>st\<close> has no capacity
  configured (\<open>MaxCapacity\<close> zero or below), \<open>CheckCapacity x\<close> does not admit, whatever \<open>x\<close>
  is, 0 included; when \<open>MaxCapacity\<close> is positive, it admits exactly when
  \<open>x < MaxCapacity\<close>, so \<open>x = MaxCapacity\<close> is denied.
\<close>

theorem capacity_fail_closed_and_strict:
  assumes "checkProductLimits e w = (Inr st, w1)"
  shows "(sint (MaxCapacity st) \<le> 0 \<longrightarrow> \<not> fst (fst (CheckCapacity e x w)))
       \<and> (0 < sint (MaxCapacity st)
            \<longrightarrow> (fst (fst (CheckCapacity e x w)) \<longleftrightarrow> sint x < sint (MaxCapacity st)))"
  using assms by (auto simp: CheckCapacity_def Let_def)

theorem capacity_fail_closed_and_strict_witness:
  "\<not> fst (fst (CheckCapacity env_denied 0 world0))
   \<and> fst (fst (CheckCapacity env_limits 4 world0))
   \<and> \<not> fst (fst (CheckCapacity env_limits 5 world0))"
  using capacity_fail_closed_and_strict [OF world0_denied, of 0]
    capacity_fail_closed_and_strict [OF world0_limits, of 4]
    capacity_fail_closed_and_strict [OF world0_limits, of 5]
  by (simp add: limits_fields denied_fields)



section \<open>How a denial is returned\<close>

text \<open>
  Claim C2, as the code has it.  Each of the four primitives returns a limit-exceeded
  outcome as \<open>admitted = false\<close> together with a non-nil error that names the limit:
  \<open>Consume\<close> on a snapshot that is not enabled returns the snapshot's remaining quota (0
  without a quota block) and the error \<open>quota exceeded: <reason>\<close>; \<open>CheckCapacity\<close> at or
  above a positive maximum returns the maximum and \<open>capacity exceeded\<close>; \<open>CheckTPS\<close> above
  a positive maximum returns the maximum and \<open>TPS exceeded\<close>; \<open>AcquireSlot\<close> with the ledger
  count at or above a positive maximum returns the empty release function and
  \<open>concurrency exceeded\<close>.
\<close>

theorem denial_carries_error:
  "(checkProductLimits e (recordTPS e w) = (Inr st, w1) \<and> \<not> Enabled st \<longrightarrow>
      fst (Consume e amount w) =
        (False, (case Quota st of None \<Rightarrow> 0 | Some q \<Rightarrow> Remaining q),
         Some (QuotaExceeded (Reason st))))
   \<and> (checkProductLimits e w = (Inr st, w1) \<and> 0 < sint (MaxCapacity st)
        \<and> sint (MaxCapacity st) \<le> sint x \<longrightarrow>
      fst (CheckCapacity e x w) =
        (False, MaxCapacity st, Some (CapacityExceeded x (MaxCapacity st))))
   \<and> (getCurrentTPS e w = (currentTPS, w0) \<and> checkProductLimits e w0 = (Inr st, w1)
        \<and> 0 < MaxTPS st \<and> MaxTPS st < currentTPS \<longrightarrow>
      fst (CheckTPS e w) = (False, MaxTPS st, Some (TPSExceeded currentTPS (MaxTPS st))))
   \<and> (checkProductLimits e w = (Inr st, w1) \<and> 0 < sint (MaxConcurrency st)
        \<and> sint (MaxConcurrency st) \<le> sint (slot_count w (product_key w)) \<longrightarrow>
      fst (AcquireSlot e w) =
        (EmptyFunc, False,
         Some (ConcurrencyExceeded (slot_count w (product_key w)) (MaxConcurrency st))))"
proof (intro conjI impI)
  assume "checkProductLimits e (recordTPS e w) = (Inr st, w1) \<and> \<not> Enabled st"
  then show "fst (Consume e amount w) =
        (False, (case Quota st of None \<Rightarrow> 0 | Some q \<Rightarrow> Remaining q),
         Some (QuotaExceeded (Reason st)))"
    by (simp add: Consume_def)
next
  assume "checkProductLimits e w = (Inr st, w1) \<and> 0 < sint (MaxCapacity st)
        \<and> sint (MaxCapacity st) \<le> sint x"
  then show "fst (CheckCapacity e x w) =
        (False, MaxCapacity st, Some (CapacityExceeded x (MaxCapacity st)))"
    by (simp add: CheckCapacity_def Let_def)
next
  assume "getCurrentTPS e w = (currentTPS, w0) \<and> checkProductLimits e w0 = (Inr st, w1)
        \<and> 0 < MaxTPS st \<and> MaxTPS st < currentTPS"
  then show "fst (CheckTPS e w) = (False, MaxTPS st, Some (TPSExceeded currentTPS (MaxTPS st)))"
    by (simp add: CheckTPS_def Let_def)
next
  assume a: "checkProductLimits e w = (Inr st, w1) \<and> 0 < sint (MaxConcurrency st)
        \<and> sint (MaxConcurrency st) \<le> sint (slot_count w (product_key w))"
  then have "slot_count w1 (product_key w1) = slot_count w (product_key w)"
    using checkProductLimits_frame [of e w "Inr st" w1]
    by (simp add: slot_count_def product_key_def)
  then show "fst (AcquireSlot e w) =
        (EmptyFunc, False,
         Some (ConcurrencyExceeded (slot_count w (product_key w)) (MaxConcurrency st)))"
    using a by (simp add: AcquireSlot_def Let_def)
qed

theorem denial_carries_error_witness:
  "fst (Consume env_denied 1 world0) = (False, 0, Some (QuotaExceeded ''quota_exceeded''))
   \<and> fst (CheckCapacity env_limits 5 world0) = (False, 5, Some (CapacityExceeded 5 5))
   \<and> fst (CheckTPS env_limits (world_app_tps 3)) = (False, 2, Some (TPSExceeded 3 2))
   \<and> fst (AcquireSlot env_limits world_two_held)
       = (EmptyFunc, False, Some (ConcurrencyExceeded 2 2))"
proof -
  have c1: "fst (Consume env_denied 1 world0)
              = (False, 0, Some (QuotaExceeded ''quota_exceeded''))"
    using denial_carries_error [of env_denied world0 "to_FeatureStatus result_denied"
        "snd (checkProductLimits env_denied (recordTPS env_denied world0))" 1]
      world0_recorded_denied
    by (simp add: denied_fields)
  have c2: "fst (CheckCapacity env_limits 5 world0) = (False, 5, Some (CapacityExceeded 5 5))"
    using denial_carries_error [of env_limits world0 "to_FeatureStatus result_limits"
        "snd (checkProductLimits env_limits world0)" _ 5]
      world0_limits
    by (simp add: limits_fields)
  have c3: "fst (CheckTPS env_limits (world_app_tps 3)) = (False, 2, Some (TPSExceeded 3 2))"
    using denial_carries_error [of env_limits "world_app_tps 3" "to_FeatureStatus result_limits"
        "snd (checkProductLimits env_limits (world_app_tps 3))" _ _ 3 "world_app_tps 3"]
      app_tps_limits [of 3] app_tps_current [of env_limits 3]
    by (simp add: limits_fields)
  have c4: "fst (AcquireSlot env_limits world_two_held)
              = (EmptyFunc, False, Some (ConcurrencyExceeded 2 2))"
    using denial_carries_error [of env_limits world_two_held "to_FeatureStatus result_limits"
        "snd (checkProductLimits env_limits world_two_held)"]
      world_two_held_limits world_two_held_count
    by (simp add: limits_fields)
  from c1 c2 c3 c4 show ?thesis by simp
qed

text \<open>
  The claim as the specification states it fails: against a snapshot that denies with
  the reason \<open>quota_exceeded\<close>, \<open>Consume(1)\<close> returns \<open>(false, 0, err)\<close> with \<open>err\<close> the
  error \<open>quota exceeded: quota_exceeded\<close>, not \<open>(false, 0, nil)\<close>.
\<close>

theorem consume_denial_counterexample:
  "fst (Consume env_denied 1 world0) \<noteq> (False, 0, None)
   \<and> snd (snd (fst (Consume env_denied 1 world0))) = Some (QuotaExceeded ''quota_exceeded'')"
  by (simp add: Consume_def recordTPS_def with_tracker_def fetch_defs example_defs
      to_FeatureStatus_def)

section \<open>Consumption\<close>




section \<open>Concurrency slots\<close>

text \<open>
  Claim C10.  When \<open>AcquireSlot\<close> does not admit or returns an error, the release
  function it returns is the empty function literal, which is not nil; the call has left
  the ledger as it was, and invoking that function any number of times, in any state,
  changes nothing.
\<close>

theorem denied_release_is_noop:
  assumes "\<not> fst (snd (fst (AcquireSlot e w))) \<or> snd (snd (fst (AcquireSlot e w))) \<noteq> None"
  shows "fst (fst (AcquireSlot e w)) = EmptyFunc
       \<and> fst (fst (AcquireSlot e w)) \<noteq> NilFunc
       \<and> concurrencyState (snd (AcquireSlot e w)) = concurrencyState w
       \<and> invoke_times n (fst (fst (AcquireSlot e w))) w' = Some w'"
proof -
  have inv: "invoke_times n EmptyFunc w' = Some w'"
    by (induction n) (simp_all add: invoke_def)
  obtain r w1 where c: "checkProductLimits e w = (r, w1)" by (cases "checkProductLimits e w")
  have fr: "concurrencyState w1 = concurrencyState w"
    using checkProductLimits_frame [OF c] by simp
  have "fst (fst (AcquireSlot e w)) = EmptyFunc
          \<and> concurrencyState (snd (AcquireSlot e w)) = concurrencyState w"
    using assms c fr by (auto simp: AcquireSlot_def Let_def split: sum.splits if_splits)
  then show ?thesis using inv by simp
qed

lemma unreachable_not_admitted:
  "\<not> fst (snd (fst (AcquireSlot env_unreachable world0)))"
  by (simp add: AcquireSlot_def fetch_defs example_defs)

lemma full_not_admitted:
  "\<not> fst (snd (fst (AcquireSlot env_limits world_two_held)))"
proof -
  obtain w1 where c: "checkProductLimits env_limits world_two_held
                        = (Inr (to_FeatureStatus result_limits), w1)"
    using world_two_held_limits by blast
  have "slot_count w1 (product_key w1) = 2"
    using checkProductLimits_frame [OF c] world_two_held_count
    by (simp add: slot_count_def product_key_def)
  then show ?thesis using c by (simp add: AcquireSlot_def Let_def limits_fields)
qed

theorem denied_release_is_noop_witness:
  "fst (fst (AcquireSlot env_unreachable world0)) = EmptyFunc
   \<and> invoke_times 3 (fst (fst (AcquireSlot env_unreachable world0))) world_one_held
       = Some world_one_held
   \<and> concurrencyState (snd (AcquireSlot env_limits world_two_held))
       = concurrencyState world_two_held
   \<and> invoke_times 2 (fst (fst (AcquireSlot env_limits world_two_held))) world_two_held
       = Some world_two_held"
proof -
  have a: "\<not> fst (snd (fst (AcquireSlot env_unreachable world0)))
             \<or> snd (snd (fst (AcquireSlot env_unreachable world0))) \<noteq> None"
    using unreachable_not_admitted by simp
  have b: "\<not> fst (snd (fst (AcquireSlot env_limits world_two_held)))
             \<or> snd (snd (fst (AcquireSlot env_limits world_two_held))) \<noteq> None"
    using full_not_admitted by simp
  from denied_release_is_noop [OF a, of 3 world_one_held]
    denied_release_is_noop [OF b, of 2 world_two_held]
  show ?thesis by blast
qed

lemma invoke_ReleaseKey_count:
  assumes "0 \<le> sint (slot_count w key)"
  shows "\<exists>w'. invoke (ReleaseKey key) w = Some w'
           \<and> sint (slot_count w' key) = max 0 (sint (slot_count w key) - 1)"
proof (cases "sint (slot_count w key) \<le> 1")
  case True
  then show ?thesis using assms by (simp add: invoke_def Let_def slot_count_def max_def)
next
  case False
  then have "sint (slot_count w key - 1) = sint (slot_count w key) - 1"
    using sint_range64 [of "slot_count w key"]
    by (intro sint_sub_no_overflow [where b = 1, simplified]) simp_all
  then show ?thesis using False by (simp add: invoke_def Let_def slot_count_def max_def)
qed

lemma released_count_ReleaseKey:
  "0 \<le> sint (slot_count w key) \<Longrightarrow>
     released_count n (ReleaseKey key) key w = Some (max 0 (sint (slot_count w key) - int n))"
proof (induction n arbitrary: w)
  case 0
  then show ?case by (simp add: released_count_def)
next
  case (Suc n)
  obtain w1 where w1: "invoke (ReleaseKey key) w = Some w1"
    "sint (slot_count w1 key) = max 0 (sint (slot_count w key) - 1)"
    using invoke_ReleaseKey_count [OF Suc.prems] by blast
  then have "0 \<le> sint (slot_count w1 key)" by simp
  from Suc.IH [OF this]
  have "released_count n (ReleaseKey key) key w1
          = Some (max 0 (sint (slot_count w1 key) - int n))" .
  moreover have "released_count (Suc n) (ReleaseKey key) key w
                   = released_count n (ReleaseKey key) key w1"
    using w1(1) by (simp add: released_count_def)
  ultimately show ?case using w1(2) by (simp add: max_def)
qed

lemma AcquireSlot_admitted:
  assumes "fst (snd (fst (AcquireSlot e w)))"
  shows "fst (fst (AcquireSlot e w)) = ReleaseKey (product_key w)
       \<and> sint (slot_count (snd (AcquireSlot e w)) (product_key w))
           = sint (slot_count w (product_key w)) + 1"
proof -
  obtain r w1 where c: "checkProductLimits e w = (r, w1)" by (cases "checkProductLimits e w")
  have fr: "slot_count w1 (product_key w1) = slot_count w (product_key w)"
    "product_key w1 = product_key w"
    using checkProductLimits_frame [OF c] by (simp_all add: slot_count_def product_key_def)
  obtain st where r: "r = Inr st" using assms c by (cases r) (simp_all add: AcquireSlot_def)
  let ?cur = "slot_count w (product_key w)"
  have lt: "sint ?cur < sint (MaxConcurrency st)"
    using assms c r fr by (simp add: AcquireSlot_def Let_def split: if_splits)
  have eq: "AcquireSlot e w = ((ReleaseKey (product_key w), True, None),
              w1\<lparr>concurrencyState := (concurrencyState w1)(product_key w \<mapsto> ?cur + 1)\<rparr>)"
    using assms c r fr by (simp add: AcquireSlot_def Let_def split: if_splits)
  have "sint (?cur + 1) = sint ?cur + 1"
    using lt sint_range64 [of ?cur] sint_range64 [of "MaxConcurrency st"]
    by (intro sint_add_no_overflow [where b = 1, simplified]) simp_all
  then show ?thesis using eq by (simp add: slot_count_def)
qed

text \<open>
  Claim C3, as the code has it.  After an admitted \<open>AcquireSlot\<close> on a ledger whose count
  \<open>c\<close> for the client's product key is not negative, the count is \<open>c + 1\<close>, and every
  invocation of the returned release function takes one off the count, stopping at zero:
  after \<open>n\<close> invocations the count is \<open>max 0 (c + 1 - n)\<close>.  So the count never goes
  negative, and it equals the count before the acquisition after exactly one invocation.
\<close>

theorem release_decrements_on_every_call:
  assumes "fst (snd (fst (AcquireSlot e w)))" and "0 \<le> sint (slot_count w (product_key w))"
  shows "released_count n (fst (fst (AcquireSlot e w))) (product_key w) (snd (AcquireSlot e w))
           = Some (max 0 (sint (slot_count w (product_key w)) + 1 - int n))"
proof -
  note a = AcquireSlot_admitted [OF assms(1)]
  have "0 \<le> sint (slot_count (snd (AcquireSlot e w)) (product_key w))"
    using a assms(2) by simp
  from released_count_ReleaseKey [OF this, of n] show ?thesis using a by simp
qed

lemma one_held_key: "product_key world_one_held = ''fp::__product__''"
  by (simp add: world_one_held_eq product_key_def)

lemma one_held_count: "slot_count world_one_held ''fp::__product__'' = 1"
  by (simp add: world_one_held_eq slot_count_def)

lemma second_admitted: "fst (snd (fst (AcquireSlot env_limits world_one_held)))"
  by (simp add: acquire_second)

theorem release_decrements_on_every_call_witness:
  "released_count 1 (fst (fst (AcquireSlot env_limits world_one_held))) ''fp::__product__''
     (snd (AcquireSlot env_limits world_one_held)) = Some 1"
proof -
  have h: "0 \<le> sint (slot_count world_one_held (product_key world_one_held))"
    by (simp add: one_held_key one_held_count)
  from release_decrements_on_every_call [OF second_admitted h, of 1] show ?thesis
    by (simp add: one_held_key one_held_count)
qed

text \<open>
  The claim as the specification states it fails when another slot is held: with a
  count of 1 before the acquisition, invoking the release function twice leaves the
  count at 0, not at 1.
\<close>

theorem double_release_counterexample:
  "sint (slot_count world_one_held ''fp::__product__'') = 1
   \<and> fst (snd (fst (AcquireSlot env_limits world_one_held)))
   \<and> released_count 2 (fst (fst (AcquireSlot env_limits world_one_held))) ''fp::__product__''
       (snd (AcquireSlot env_limits world_one_held)) = Some 0"
  unfolding acquire_second
  by (simp add: world_one_held_eq released_count_def invoke_def slot_count_def Let_def
      numeral_2_eq_2)

section \<open>Cache lifetime and refresh\<close>

text \<open>
  Claim C5, as the code has it.  When \<open>CheckFeature\<close> finds no valid entry and the
  authority replies with \<open>result\<close>, the entry it stores expires at the time of storing
  plus the client's configured \<open>ttl\<close>, whatever cache lifetime \<open>result\<close> suggests.
\<close>

theorem entry_expires_after_configured_ttl:
  assumes "cache_get e k w = (None, w1)" and "authority e (length (queries w)) k = Inr result"
  shows "map_option expiresAt (data (cache (client (snd (CheckFeature e k w)))) k)
           = Some (time_Now e w1 + ttl (cache (client w)))"
proof -
  have q: "queries w1 = queries w" "cache (client w1) = cache (client w)"
    using assms(1) by (auto simp: cache_get_def tick_def split: option.splits)
  show ?thesis
    using assms q
    by (simp add: CheckFeature_def queryFeature_def cache_set_def with_cache_def
        set_entry_def tick_def time_Now_def Let_def)
qed

lemma world0_miss: "cache_get e k world0 = (None, world0)"
  by (simp add: cache_get_def world0_def NewClientWithKeyPair_def)

theorem entry_expires_after_configured_ttl_witness:
  "map_option expiresAt
     (data (cache (client (snd (CheckFeature env_limits ''__product__'' world0)))) ''__product__'')
     = Some (10 * Second)"
proof -
  have a: "authority env_limits (length (queries world0)) ''__product__'' = Inr result_limits"
    by (simp add: env_limits_def)
  from entry_expires_after_configured_ttl [OF world0_miss a] show ?thesis
    by (simp add: time_Now_def world0_def NewClientWithKeyPair_def env_limits_def)
qed

text \<open>
  The claim as the specification states it fails: the authority suggests a lifetime of
  30, the client is configured with ten seconds, and the entry stored at time 0 is served
  five seconds later and gone twenty seconds later.
\<close>

theorem server_ttl_counterexample:
  "result_CacheTTL result_limits = 30
   \<and> get (5 * Second) ''__product__''
        (cache (client (snd (CheckFeature env_limits ''__product__'' world0))))
       = Some (to_FeatureStatus result_limits)
   \<and> get (20 * Second) ''__product__''
        (cache (client (snd (CheckFeature env_limits ''__product__'' world0)))) = None"
  by (simp add: fetch_defs world0_def NewClientWithKeyPair_def Second_def env_limits_def
      result_limits_def)

subsection \<open>Concurrent callers\<close>







text \<open>One caller, moved three times, is \<open>CheckFeature\<close>.\<close>

lemma run_single_caller:
  "run e k [0, 0, 0] (start 1 w)
     = \<lparr>shared = snd (CheckFeature e k w), callers = [Returned (fst (CheckFeature e k w))]\<rparr>"
  by (simp add: start_def step_def CheckFeature_def split: prod.splits option.splits sum.splits)




end
